theory Spec2Isabelle
  imports
    Complex_Main
    "HOL-Library.Char_ord"
    "HOL-Library.List_Lexorder"
    "HOL-Library.AList"
    "HOL-Library.Multiset"
begin

section \<open>Python values used by both services\<close>

text \<open>
  Conventions of the embedding.
  \<^item> A Python \<open>str\<close> is a \<open>string\<close> of code points below 128; \<open><\<close> on strings is the
    lexicographic order on code points (\<open>List_Lexorder\<close> over \<open>Char_ord\<close>), which is
    Python's string comparison.
  \<^item> A Python \<open>dict\<close> is an association list in insertion order: \<open>d[k] = v\<close> is
    \<open>AList.update k v d\<close> (replace in place, or append), \<open>d.get(k)\<close> is \<open>map_of d k\<close>,
    \<open>del d[k]\<close> is \<open>AList.delete k d\<close>. A well-formed dict has distinct keys.
  \<^item> A Python \<open>int\<close> is an \<open>int\<close>. A Python \<open>float\<close> is idealised as an exact
    rational (\<open>rat\<close>): the rounding error of IEEE doubles is not modelled.
  \<^item> An exception is a value \<open>Inl e\<close> of a sum type.
\<close>

datatype py_error =
    FileNotFoundError
  | ValueError
  | KeyError
  | IndexError
  | IOError

type_synonym ('k, 'v) dict = "('k \<times> 'v) list"

definition dict_get :: "('k, 'v) dict \<Rightarrow> 'k \<Rightarrow> 'v \<Rightarrow> 'v" where
  "dict_get d k dflt = (case map_of d k of None \<Rightarrow> dflt | Some v \<Rightarrow> v)"

text \<open>Truthiness of an \<open>Optional[str]\<close>: \<open>None\<close> and the empty string are both false.\<close>

definition truthy :: "string option \<Rightarrow> bool" where
  "truthy p = (case p of None \<Rightarrow> False | Some s \<Rightarrow> s \<noteq> [])"

text \<open>
  \<open>sorted(xs, key=f)\<close> and \<open>xs.sort(key=f)\<close> are the stable \<open>sort_key f xs\<close>. With
  \<open>reverse=True\<close> Python sorts descending and still keeps equal keys in their original
  order: it reverses, sorts stably, and reverses again.
\<close>

definition sort_key_reverse :: "('a \<Rightarrow> 'k::linorder) \<Rightarrow> 'a list \<Rightarrow> 'a list" where
  "sort_key_reverse f xs = rev (sort_key f (rev xs))"

text \<open>\<open>xs[i]\<close>: a negative index counts from the end, out of range raises \<open>IndexError\<close>.\<close>

definition py_index :: "'a list \<Rightarrow> int \<Rightarrow> py_error + 'a" where
  "py_index xs i =
     (if 0 \<le> i \<and> i < int (length xs) then Inr (xs ! nat i)
      else if - int (length xs) \<le> i \<and> i < 0 then Inr (xs ! nat (int (length xs) + i))
      else Inl IndexError)"

text \<open>
  \<open>round(x, ndigits)\<close>: the closest multiple of \<open>10 ^ (- ndigits)\<close>, a tie going to the
  even multiple. On a double a tie is decided by the binary value actually stored, which
  the exact model does not see; the properties proved of \<open>py_round\<close> below (a multiple of
  \<open>10 ^ (- ndigits)\<close>, at most half a unit away) hold whichever way a tie goes.
\<close>

definition py_round :: "rat \<Rightarrow> nat \<Rightarrow> rat" where
  "py_round x ndigits =
     (let m = (10::int) ^ ndigits;
          y = x * of_int m;
          f = \<lfloor>y\<rfloor>;
          d = y - of_int f
      in of_int (if d < 1 / 2 then f
                 else if 1 / 2 < d then f + 1
                 else if even f then f else f + 1) / of_int m)"


section \<open>TrendEngineService\<close>

subsection \<open>Data\<close>

type_synonym counts = "(string, int) dict"

text \<open>One entry of \<open>historical_data.json\<close>, as \<open>save_skill_frequencies\<close> writes it.\<close>

record snapshot =
  period :: string
  timestamp :: string
  skill_counts :: counts
  total_occurrences :: int
  unique_skills :: int

type_synonym history = "(string, snapshot) dict"

text \<open>
  The backing file \<open>historical_data.json\<close>: absent, present but not valid JSON, or holding
  a history. \<open>json.dump\<close> followed by \<open>json.load\<close> is taken to be the identity on a history
  (string keys, integer counts). \<open>writable\<close> says whether opening the file for writing
  succeeds.
\<close>

datatype file_state = NoFile | NotJson | Stored history

record store =
  data_file :: file_state
  writable :: bool

text \<open>The two readings of \<open>datetime.now()\<close> that \<open>save_skill_frequencies\<close> takes.\<close>

record clock =
  today :: string
  now_iso :: string

record trend_record =
  skill :: string
  current_count :: int
  previous_count :: int
  absolute_change :: int
  percentage_change :: rat
  trend :: string

type_synonym trends = "(string, trend_record) dict"

record summary =
  rising :: "trend_record list"
  stable :: "trend_record list"
  declining :: "trend_record list"

subsection \<open>Class constants\<close>

definition RISING_THRESHOLD :: rat where
  "RISING_THRESHOLD = 15 / 100"

definition DECLINING_THRESHOLD :: rat where
  "DECLINING_THRESHOLD = - (15 / 100)"

definition STABLE_THRESHOLD_LOW :: rat where
  "STABLE_THRESHOLD_LOW = - (5 / 100)"

definition STABLE_THRESHOLD_HIGH :: rat where
  "STABLE_THRESHOLD_HIGH = 5 / 100"

subsection \<open>Persistence\<close>

text \<open>\<open>_load_historical_data\<close>: a missing file and a file that is not JSON both give \<open>{}\<close>.\<close>

definition load_historical_data :: "store \<Rightarrow> history" where
  "load_historical_data st =
     (case data_file st of NoFile \<Rightarrow> [] | NotJson \<Rightarrow> [] | Stored h \<Rightarrow> h)"

text \<open>\<open>_save_historical_data\<close>: rewrites the whole file, or raises \<open>IOError\<close>.\<close>

definition save_historical_data :: "store \<Rightarrow> history \<Rightarrow> py_error + store" where
  "save_historical_data st data =
     (if writable st then Inr (st\<lparr>data_file := Stored data\<rparr>) else Inl IOError)"

text \<open>\<open>save_skill_frequencies\<close> returns the period identifier used, and the new store.\<close>

definition save_skill_frequencies ::
  "store \<Rightarrow> clock \<Rightarrow> counts \<Rightarrow> string option \<Rightarrow> py_error + (string \<times> store)" where
  "save_skill_frequencies st clk counts period_arg =
     (let period' = (if \<not> truthy period_arg then today clk else the period_arg);
          data_entry = \<lparr>period = period',
                        timestamp = now_iso clk,
                        skill_counts = counts,
                        total_occurrences = sum_list (map snd counts),
                        unique_skills = int (length counts)\<rparr>;
          historical_data = load_historical_data st;
          historical_data' = AList.update period' data_entry historical_data
      in case save_historical_data st historical_data' of
           Inl e \<Rightarrow> Inl e
         | Inr st' \<Rightarrow> Inr (period', st'))"

text \<open>\<open>clear_historical_data\<close> returns the number of periods removed, and the new store.\<close>

definition clear_historical_data :: "store \<Rightarrow> string option \<Rightarrow> py_error + (int \<times> store)" where
  "clear_historical_data st before_period =
     (let historical_data = load_historical_data st in
      if \<not> truthy before_period then
        (case save_historical_data st [] of
           Inl e \<Rightarrow> Inl e
         | Inr st' \<Rightarrow> Inr (int (length historical_data), st'))
      else
        (let periods_to_remove = filter (\<lambda>p. p < the before_period) (map fst historical_data);
             historical_data' = fold AList.delete periods_to_remove historical_data
         in case save_historical_data st historical_data' of
              Inl e \<Rightarrow> Inl e
            | Inr st' \<Rightarrow> Inr (int (length periods_to_remove), st')))"

definition get_historical_periods :: "store \<Rightarrow> string list" where
  "get_historical_periods st = sort_key_reverse (\<lambda>p. p) (map fst (load_historical_data st))"

subsection \<open>Trend analysis\<close>

definition classify_trend :: "rat \<Rightarrow> string" where
  "classify_trend pc =
     (if RISING_THRESHOLD \<le> pc then ''rising''
      else if pc \<le> DECLINING_THRESHOLD then ''declining''
      else ''stable'')"

text \<open>\<open>_classify_all_as_new\<close>: the loop over \<open>skill_counts.items()\<close>, then the method.\<close>

fun classify_all_as_new_loop :: "(string \<times> int) list \<Rightarrow> trends \<Rightarrow> trends" where
  "classify_all_as_new_loop [] trends = trends"
| "classify_all_as_new_loop ((skill_name, count') # rest) trends =
     classify_all_as_new_loop rest
       (AList.update skill_name
          \<lparr>skill = skill_name,
           current_count = count',
           previous_count = 0,
           absolute_change = count',
           percentage_change = 100,
           trend = ''rising''\<rparr> trends)"

definition classify_all_as_new :: "counts \<Rightarrow> trends" where
  "classify_all_as_new counts = classify_all_as_new_loop counts []"

text \<open>
  Lines 84 to 106 of \<open>analyze_trends\<close>: the choice of the comparison counts.
  \<open>Inr None\<close> stands for each early \<open>return self._classify_all_as_new(...)\<close>. A snapshot
  is a record with all five fields, so it is never falsy and always has \<open>skill_counts\<close>.
  Indexing \<open>sorted_periods\<close> follows Python: \<open>periods_back \<le> 0\<close> gives a negative index.
\<close>

definition comparison_counts ::
  "history \<Rightarrow> string option \<Rightarrow> int \<Rightarrow> py_error + counts option" where
  "comparison_counts historical_data comparison_period periods_back =
     (if historical_data = [] then Inr None
      else if truthy comparison_period then
        (case map_of historical_data (the comparison_period) of
           None \<Rightarrow> Inr None
         | Some comparison_data \<Rightarrow> Inr (Some (skill_counts comparison_data)))
      else
        (let sorted_periods = sort_key_reverse (\<lambda>p. p) (map fst historical_data) in
         if sorted_periods = [] then Inr None
         else
           (let target_index = min (periods_back - 1) (int (length sorted_periods) - 1) in
            case py_index sorted_periods target_index of
              Inl e \<Rightarrow> Inl e
            | Inr comparison_period_key \<Rightarrow>
                (case map_of historical_data comparison_period_key of
                   None \<Rightarrow> Inl KeyError
                 | Some comparison_data \<Rightarrow> Inr (Some (skill_counts comparison_data))))))"

text \<open>
  The body of the loop of lines 114 to 141 for one skill: \<open>None\<close> is the \<open>continue\<close>,
  \<open>Some r\<close> the record stored in \<open>trends[skill]\<close>.
\<close>

definition skill_trend :: "counts \<Rightarrow> counts \<Rightarrow> string \<Rightarrow> trend_record option" where
  "skill_trend current_skill_counts comparison_counts' skill_name =
     (let current = dict_get current_skill_counts skill_name 0;
          previous = dict_get comparison_counts' skill_name 0;
          outcome =
            (if previous = 0 then
               (if 0 < current then Some (1, ''rising'') else None)
             else
               (let pc = (of_int (current - previous) :: rat) / of_int previous
                in Some (pc, classify_trend pc)))
      in case outcome of
           None \<Rightarrow> None
         | Some (pc, classification) \<Rightarrow>
             Some \<lparr>skill = skill_name,
                   current_count = current,
                   previous_count = previous,
                   absolute_change = current - previous,
                   percentage_change = py_round (pc * 100) 2,
                   trend = classification\<rparr>)"

fun calculate_trends :: "string list \<Rightarrow> counts \<Rightarrow> counts \<Rightarrow> trends \<Rightarrow> trends" where
  "calculate_trends [] cur prev trends = trends"
| "calculate_trends (skill_name # rest) cur prev trends =
     (case skill_trend cur prev skill_name of
        None \<Rightarrow> calculate_trends rest cur prev trends
      | Some r \<Rightarrow> calculate_trends rest cur prev (AList.update skill_name r trends))"

text \<open>
  \<open>set(current.keys()) | set(comparison.keys())\<close>. Python leaves the iteration order of
  a set open; the model enumerates it in order of first occurrence. The result is read as
  a mapping, and \<open>calculate_trends\<close> is proved below to give the same mapping for every
  enumeration.
\<close>

definition all_skills :: "counts \<Rightarrow> counts \<Rightarrow> string list" where
  "all_skills cur prev = remdups (map fst cur @ map fst prev)"

definition analyze_trends ::
  "store \<Rightarrow> counts \<Rightarrow> string option \<Rightarrow> int \<Rightarrow> py_error + trends" where
  "analyze_trends st current_skill_counts comparison_period periods_back =
     (case comparison_counts (load_historical_data st) comparison_period periods_back of
        Inl e \<Rightarrow> Inl e
      | Inr None \<Rightarrow> Inr (classify_all_as_new current_skill_counts)
      | Inr (Some prev) \<Rightarrow>
          Inr (calculate_trends (all_skills current_skill_counts prev)
                 current_skill_counts prev []))"

subsection \<open>Summary\<close>

text \<open>\<open>summary[trend_type].append(skill_data)\<close>: an unknown key raises \<open>KeyError\<close>.\<close>

definition summary_append :: "summary \<Rightarrow> trend_record \<Rightarrow> py_error + summary" where
  "summary_append s skill_data =
     (let trend_type = trend skill_data in
      if trend_type = ''rising'' then Inr (s\<lparr>rising := rising s @ [skill_data]\<rparr>)
      else if trend_type = ''stable'' then Inr (s\<lparr>stable := stable s @ [skill_data]\<rparr>)
      else if trend_type = ''declining'' then Inr (s\<lparr>declining := declining s @ [skill_data]\<rparr>)
      else Inl KeyError)"

fun summary_loop :: "trend_record list \<Rightarrow> summary \<Rightarrow> py_error + summary" where
  "summary_loop [] s = Inr s"
| "summary_loop (skill_data # rest) s =
     (case summary_append s skill_data of
        Inl e \<Rightarrow> Inl e
      | Inr s' \<Rightarrow> summary_loop rest s')"

definition get_trend_summary :: "trends \<Rightarrow> py_error + summary" where
  "get_trend_summary trends =
     (case summary_loop (map snd trends) \<lparr>rising = [], stable = [], declining = []\<rparr> of
        Inl e \<Rightarrow> Inl e
      | Inr s \<Rightarrow>
          Inr \<lparr>rising = sort_key_reverse (\<lambda>x. \<bar>absolute_change x\<bar>) (rising s),
               stable = sort_key_reverse (\<lambda>x. \<bar>absolute_change x\<bar>) (stable s),
               declining = sort_key_reverse (\<lambda>x. \<bar>absolute_change x\<bar>) (declining s)\<rparr>)"


section \<open>SkillExtractionService\<close>

subsection \<open>Data\<close>

text \<open>
  One value of the \<open>skills\<close> object of \<open>skills.json\<close>. Both keys are read with
  \<open>.get(key, default)\<close>, so both may be absent.
\<close>

record skill_metadata =
  category :: "string option"
  variations :: "string list option"

type_synonym skills_dict = "(string, skill_metadata) dict"

text \<open>
  What \<open>open\<close> and \<open>json.load\<close> find at the path of \<open>skills.json\<close>: no file
  (\<open>FileNotFoundError\<close>), a file that is not JSON (\<open>json.JSONDecodeError\<close>; a file of
  zero bytes is one), or a JSON object, of which only the key \<open>skills\<close> is read:
  \<open>Catalog None\<close> has no such key. The value of \<open>skills\<close> is taken to be of the shape
  the service expects, an object of objects with a string \<open>category\<close> and a list of
  strings \<open>variations\<close>.
\<close>

datatype catalog_file = CatalogMissing | CatalogNotJson | Catalog "skills_dict option"

record service =
  skills_data :: skills_dict
  skill_map :: "(string, string) dict"

record extracted_skill =
  skill_name :: string
  skill_category :: string

text \<open>The argument of \<open>extract_skills\<close> is any Python value; these are the kinds told apart.\<close>

datatype py_value = PyNone | PyInt int | PyStr string | PyList "py_value list"

fun py_bool :: "py_value \<Rightarrow> bool" where
  "py_bool PyNone = False"
| "py_bool (PyInt i) = (i \<noteq> 0)"
| "py_bool (PyStr s) = (s \<noteq> [])"
| "py_bool (PyList xs) = (xs \<noteq> [])"

fun isinstance_str :: "py_value \<Rightarrow> bool" where
  "isinstance_str (PyStr s) = True"
| "isinstance_str v = False"

subsection \<open>Strings and the regular expression\<close>

definition code_point :: "char \<Rightarrow> nat" where
  "code_point c = of_char c"

text \<open>\<open>str.isspace\<close>, which is also the class \<open>\s\<close>, on code points below 128.\<close>

definition isspace :: "char \<Rightarrow> bool" where
  "isspace c = (let n = code_point c in (9 \<le> n \<and> n \<le> 13) \<or> (28 \<le> n \<and> n \<le> 32))"

text \<open>The class \<open>\w\<close> on code points below 128: letters, digits and the underscore.\<close>

definition is_word_char :: "char \<Rightarrow> bool" where
  "is_word_char c =
     (let n = code_point c in
      (48 \<le> n \<and> n \<le> 57) \<or> (65 \<le> n \<and> n \<le> 90) \<or> n = 95 \<or> (97 \<le> n \<and> n \<le> 122))"

definition lower_char :: "char \<Rightarrow> char" where
  "lower_char c =
     (let n = code_point c in if 65 \<le> n \<and> n \<le> 90 then char_of (n + 32) else c)"

definition lower :: "string \<Rightarrow> string" where
  "lower s = map lower_char s"

definition strip :: "string \<Rightarrow> string" where
  "strip s = rev (dropWhile isspace (rev (dropWhile isspace s)))"

text \<open>\<open>re.sub(r'\s+', ' ', s)\<close>: every maximal run of whitespace becomes one space.\<close>

function collapse_whitespace :: "string \<Rightarrow> string" where
  "collapse_whitespace [] = []"
| "collapse_whitespace (c # cs) =
     (if isspace c then CHR '' '' # collapse_whitespace (dropWhile isspace cs)
      else c # collapse_whitespace cs)"
  by pat_completeness auto
termination
  by (relation "measure length") (auto simp: le_imp_less_Suc length_dropWhile_le)

text \<open>
  \<open>\b\<close> at position \<open>i\<close> of the text: exactly one of the characters before and after the
  position is a word character; beyond either end there is no word character.
\<close>

definition word_at :: "string \<Rightarrow> int \<Rightarrow> bool" where
  "word_at text i = (0 \<le> i \<and> i < int (length text) \<and> is_word_char (text ! nat i))"

definition word_boundary :: "string \<Rightarrow> nat \<Rightarrow> bool" where
  "word_boundary text i = (word_at text (int i - 1) \<noteq> word_at text (int i))"

text \<open>
  The pattern \<open>r'\b' + re.escape(v) + r'\b'\<close> at position \<open>i\<close>, under \<open>re.IGNORECASE\<close>:
  the escaped \<open>v\<close> matches itself, letter case apart.
\<close>

definition match_at :: "string \<Rightarrow> string \<Rightarrow> nat \<Rightarrow> bool" where
  "match_at v text i =
     (i + length v \<le> length text \<and>
      word_boundary text i \<and>
      lower (take (length v) (drop i text)) = lower v \<and>
      word_boundary text (i + length v))"

text \<open>\<open>re.search\<close>: a match at some position of the text.\<close>

definition re_search_word :: "string \<Rightarrow> string \<Rightarrow> bool" where
  "re_search_word v text = list_ex (match_at v text) [0 ..< Suc (length text)]"

subsection \<open>Loading the catalog\<close>

text \<open>\<open>_load_skills_data\<close>. An empty catalog is logged as a warning and returned.\<close>

definition load_skills_data :: "catalog_file \<Rightarrow> py_error + skills_dict" where
  "load_skills_data f =
     (case f of
        CatalogMissing \<Rightarrow> Inl FileNotFoundError
      | CatalogNotJson \<Rightarrow> Inl ValueError
      | Catalog json_data \<Rightarrow> Inr (case json_data of None \<Rightarrow> [] | Some skills_dict \<Rightarrow> skills_dict))"

text \<open>\<open>_build_skill_map\<close>: the inner loop over the variations, the outer loop over the skills.\<close>

fun add_variations :: "string list \<Rightarrow> string \<Rightarrow> (string, string) dict \<Rightarrow> (string, string) dict" where
  "add_variations [] normalized_skill_name m = m"
| "add_variations (variation # rest) normalized_skill_name m =
     add_variations rest normalized_skill_name
       (AList.update (lower variation) normalized_skill_name m)"

fun build_skill_map_loop :: "(string \<times> skill_metadata) list \<Rightarrow> (string, string) dict \<Rightarrow> (string, string) dict" where
  "build_skill_map_loop [] m = m"
| "build_skill_map_loop ((normalized_skill_name, skill_metadata) # rest) m =
     (let skill_variations = (case variations skill_metadata of None \<Rightarrow> [] | Some vs \<Rightarrow> vs);
          m1 = AList.update (lower normalized_skill_name) normalized_skill_name m;
          m2 = add_variations skill_variations normalized_skill_name m1
      in build_skill_map_loop rest m2)"

definition build_skill_map :: "skills_dict \<Rightarrow> (string, string) dict" where
  "build_skill_map sd = build_skill_map_loop sd []"

text \<open>\<open>__init__\<close>: any exception of the two steps is logged and raised again.\<close>

definition service_init :: "catalog_file \<Rightarrow> py_error + service" where
  "service_init f =
     (case load_skills_data f of
        Inl e \<Rightarrow> Inl e
      | Inr sd \<Rightarrow> Inr \<lparr>skills_data = sd, skill_map = build_skill_map sd\<rparr>)"

subsection \<open>Extraction\<close>

text \<open>
  The loop of lines 154 to 175 over \<open>sorted_skill_variations\<close>, with the set of discovered
  skills and the list of results as its state. \<open>self.skills_data[name]\<close> raises
  \<open>KeyError\<close> for a missing name.
\<close>

fun extract_loop ::
  "(string \<times> string) list \<Rightarrow> skills_dict \<Rightarrow> string \<Rightarrow> string set \<Rightarrow> extracted_skill list
     \<Rightarrow> py_error + extracted_skill list" where
  "extract_loop [] sd text discovered acc = Inr acc"
| "extract_loop ((skill_variation, normalized_skill_name) # rest) sd text discovered acc =
     (if normalized_skill_name \<in> discovered then extract_loop rest sd text discovered acc
      else if re_search_word skill_variation text then
        (case map_of sd normalized_skill_name of
           None \<Rightarrow> Inl KeyError
         | Some skill_metadata \<Rightarrow>
             extract_loop rest sd text (insert normalized_skill_name discovered)
               (acc @ [\<lparr>skill_name = normalized_skill_name,
                         skill_category =
                           (case category skill_metadata of None \<Rightarrow> ''Unknown'' | Some c \<Rightarrow> c)\<rparr>]))
      else extract_loop rest sd text discovered acc)"

definition extract_skills :: "service \<Rightarrow> py_value \<Rightarrow> py_error + extracted_skill list" where
  "extract_skills svc input_text =
     (if \<not> py_bool input_text \<or> \<not> isinstance_str input_text then Inr []
      else
        (case input_text of
           PyStr s \<Rightarrow>
             (let normalized_input_text = collapse_whitespace (strip (lower s));
                  sorted_skill_variations =
                    sort_key_reverse (\<lambda>item. length (fst item)) (skill_map svc)
              in case extract_loop sorted_skill_variations (skills_data svc)
                        normalized_input_text {} [] of
                   Inl e \<Rightarrow> Inl e
                 | Inr extracted_skills_list \<Rightarrow> Inr (sort_key skill_name extracted_skills_list))
         | _ \<Rightarrow> Inr []))"

section \<open>Example inputs\<close>

text \<open>A store holding one earlier period, used to run the functions on concrete inputs.\<close>

definition example_history :: history where
  "example_history =
     [(''2024-01-08'',
       \<lparr>period = ''2024-01-08'', timestamp = ''2024-01-08T09:00:00'',
        skill_counts = [(''Python'', 100), (''Go'', 20), (''Rust'', 0)],
        total_occurrences = 120, unique_skills = 3\<rparr>)]"

definition example_store :: store where
  "example_store = \<lparr>data_file = Stored example_history, writable = True\<rparr>"


definition example_history3 :: history where
  "example_history3 =
     [(''2024-01-08'',
       \<lparr>period = ''2024-01-08'', timestamp = ''2024-01-08T09:00:00'',
        skill_counts = [(''Python'', 100)], total_occurrences = 100, unique_skills = 1\<rparr>),
      (''2024-01-01'',
       \<lparr>period = ''2024-01-01'', timestamp = ''2024-01-01T09:00:00'',
        skill_counts = [(''Python'', 80)], total_occurrences = 80, unique_skills = 1\<rparr>),
      (''2024-01-15'',
       \<lparr>period = ''2024-01-15'', timestamp = ''2024-01-15T09:00:00'',
        skill_counts = [(''Python'', 120)], total_occurrences = 120, unique_skills = 1\<rparr>)]"

definition example_store3 :: store where
  "example_store3 = \<lparr>data_file = Stored example_history3, writable = True\<rparr>"

definition example_clock :: clock where
  "example_clock = \<lparr>today = ''2024-02-01'', now_iso = ''2024-02-01T12:00:00''\<rparr>"


definition example_trends :: trends where
  "example_trends =
     [(''Python'', \<lparr>skill = ''Python'', current_count = 115, previous_count = 100,
                    absolute_change = 15, percentage_change = 15, trend = ''rising''\<rparr>),
      (''Go'', \<lparr>skill = ''Go'', current_count = 0, previous_count = 20,
                absolute_change = - 20, percentage_change = - 100, trend = ''declining''\<rparr>),
      (''Java'', \<lparr>skill = ''Java'', current_count = 40, previous_count = 0,
                  absolute_change = 40, percentage_change = 100, trend = ''rising''\<rparr>),
      (''Rust'', \<lparr>skill = ''Rust'', current_count = 31, previous_count = 30,
                  absolute_change = 1, percentage_change = 333 / 100, trend = ''stable''\<rparr>)]"


definition node_catalog :: catalog_file where
  "node_catalog = Catalog (Some
     [(''Node'', \<lparr>category = Some ''Platform'', variations = Some []\<rparr>),
      (''Node.js'', \<lparr>category = Some ''Runtime'', variations = Some [''nodejs'']\<rparr>)])"

definition node_service :: service where
  "node_service =
     \<lparr>skills_data =
        [(''Node'', \<lparr>category = Some ''Platform'', variations = Some []\<rparr>),
         (''Node.js'', \<lparr>category = Some ''Runtime'', variations = Some [''nodejs'']\<rparr>)],
      skill_map = [(''node'', ''Node''), (''node.js'', ''Node.js''), (''nodejs'', ''Node.js'')]\<rparr>"


section \<open>Properties of the trend engine\<close>

subsection \<open>Rounding and classification\<close>


lemma py_round_100: "py_round 100 2 = 100"
  by (simp add: py_round_def Let_def)

lemma py_round_multiple: "\<exists>k::int. py_round x n = of_int k / of_int (10 ^ n)"
  unfolding py_round_def Let_def by blast

lemma py_round_close: "\<bar>py_round x n - x\<bar> \<le> 1 / (2 * 10 ^ n)"
proof -
  define m :: rat where "m = 10 ^ n"
  define y where "y = x * m"
  define f where "f = \<lfloor>y\<rfloor>"
  define d where "d = y - of_int f"
  define g :: int where "g = (if d < 1 / 2 then f else if 1 / 2 < d then f + 1 else if even f then f else f + 1)"
  have m: "0 < m" by (simp add: m_def)
  have d: "0 \<le> d" "d < 1" unfolding d_def f_def by linarith+
  have r: "py_round x n = of_int g / m"
    by (simp add: py_round_def Let_def g_def d_def f_def y_def m_def)
  have "\<bar>of_int g - y\<bar> \<le> 1 / 2"
    using d unfolding g_def by (auto simp: d_def split: if_splits)
  moreover have "py_round x n - x = (of_int g - y) / m"
    using m by (simp add: r y_def diff_divide_distrib)
  ultimately have "\<bar>py_round x n - x\<bar> \<le> (1 / 2) / m"
    using m divide_right_mono[of "\<bar>of_int g - y\<bar>" "1 / 2" m] by (simp add: abs_divide)
  then show ?thesis by (simp add: m_def)
qed

lemma map_of_calculate_trends:
  "map_of (calculate_trends ks cur prev acc) s =
     (if s \<in> set ks \<and> skill_trend cur prev s \<noteq> None then skill_trend cur prev s else map_of acc s)"
  by (induction ks arbitrary: acc) (auto simp: update_conv' split: option.splits)

lemma skill_trend_absent:
  "s \<notin> set (all_skills cur prev) \<Longrightarrow> skill_trend cur prev s = None"
proof -
  assume "s \<notin> set (all_skills cur prev)"
  then have "map_of cur s = None" "map_of prev s = None"
    by (auto simp: all_skills_def map_of_eq_None_iff)
  then show ?thesis
    by (simp add: skill_trend_def dict_get_def)
qed

lemma map_of_analyze:
  "map_of (calculate_trends (all_skills cur prev) cur prev []) s = skill_trend cur prev s"
  using skill_trend_absent[of s cur prev] by (auto simp: map_of_calculate_trends)

lemma map_of_classify_loop:
  "distinct (map fst cs) \<Longrightarrow>
   map_of (classify_all_as_new_loop cs acc) s =
     (case map_of cs s of
        None \<Rightarrow> map_of acc s
      | Some n \<Rightarrow> Some \<lparr>skill = s, current_count = n, previous_count = 0, absolute_change = n,
                       percentage_change = 100, trend = ''rising''\<rparr>)"
proof (induction cs arbitrary: acc)
  case Nil
  then show ?case by simp
next
  case (Cons a cs)
  obtain k v where a: "a = (k, v)" by (cases a)
  from Cons.prems a have "map_of cs k = None"
    by (simp add: map_of_eq_None_iff)
  with Cons a show ?case
    by (auto simp: update_conv' split: option.splits)
qed


lemma classify_trend_cases:
  "(classify_trend x = ''rising'' \<longleftrightarrow> 15 / 100 \<le> x) \<and>
   (classify_trend x = ''declining'' \<longleftrightarrow> x \<le> - (15 / 100)) \<and>
   (classify_trend x = ''stable'' \<longleftrightarrow> - (15 / 100) < x \<and> x < 15 / 100)"
  by (auto simp: classify_trend_def RISING_THRESHOLD_def DECLINING_THRESHOLD_def)

lemma analyze_trends_selected:
  "comparison_counts (load_historical_data st) cp pb = Inr (Some prev) \<Longrightarrow>
   analyze_trends st cur cp pb = Inr (calculate_trends (all_skills cur prev) cur prev [])"
  by (simp add: analyze_trends_def)

lemma skill_trend_positive:
  assumes "0 < dict_get prev s 0"
  shows "skill_trend cur prev s =
     Some \<lparr>skill = s, current_count = dict_get cur s 0, previous_count = dict_get prev s 0,
           absolute_change = dict_get cur s 0 - dict_get prev s 0,
           percentage_change =
             py_round ((of_int (dict_get cur s 0 - dict_get prev s 0) / of_int (dict_get prev s 0)) * 100) 2,
           trend = classify_trend (of_int (dict_get cur s 0 - dict_get prev s 0) / of_int (dict_get prev s 0))\<rparr>"
  using assms by (simp add: skill_trend_def Let_def)

text \<open>
  Claim C1. When a comparison snapshot is selected and the skill's previous count is
  positive, \<open>analyze_trends\<close> returns for that skill a record whose \<open>percentage_change\<close>
  is \<open>(current - previous) / previous * 100\<close> rounded to two decimals (a multiple of
  \<open>0.01\<close> at most \<open>0.005\<close> away), and whose \<open>trend\<close> is rising exactly when the fraction is
  at least \<open>0.15\<close>, declining exactly when it is at most \<open>-0.15\<close>, and stable otherwise.
  Both bounds are inclusive, and a fraction between the \<open>5%\<close> band and the \<open>15%\<close>
  thresholds is stable: \<open>STABLE_THRESHOLD_LOW\<close> and \<open>STABLE_THRESHOLD_HIGH\<close> decide nothing.
\<close>

theorem analyze_trends_percentage_and_classification:
  assumes "comparison_counts (load_historical_data st) comparison_period periods_back = Inr (Some prev)"
      and "previous = dict_get prev s 0"
      and "current = dict_get cur s 0"
      and "0 < previous"
      and "fraction = (of_int (current - previous) :: rat) / of_int previous"
  shows "\<exists>ts r. analyze_trends st cur comparison_period periods_back = Inr ts \<and>
           map_of ts s = Some r \<and>
           skill r = s \<and> current_count r = current \<and> previous_count r = previous \<and>
           absolute_change r = current - previous \<and>
           (\<exists>k::int. percentage_change r = of_int k / 100) \<and>
           \<bar>percentage_change r - fraction * 100\<bar> \<le> 1 / 200 \<and>
           (trend r = ''rising'' \<longleftrightarrow> 15 / 100 \<le> fraction) \<and>
           (trend r = ''declining'' \<longleftrightarrow> fraction \<le> - (15 / 100)) \<and>
           (trend r = ''stable'' \<longleftrightarrow> - (15 / 100) < fraction \<and> fraction < 15 / 100) \<and>
           (STABLE_THRESHOLD_HIGH < fraction \<and> fraction < RISING_THRESHOLD \<or>
            DECLINING_THRESHOLD < fraction \<and> fraction < STABLE_THRESHOLD_LOW
              \<longrightarrow> trend r = ''stable'')"
proof -
  define r where "r = \<lparr>skill = s, current_count = current, previous_count = previous,
           absolute_change = current - previous,
           percentage_change = py_round (fraction * 100) 2,
           trend = classify_trend fraction\<rparr>"
  have run: "analyze_trends st cur comparison_period periods_back =
      Inr (calculate_trends (all_skills cur prev) cur prev [])"
    using assms(1) by (rule analyze_trends_selected)
  have look: "map_of (calculate_trends (all_skills cur prev) cur prev []) s = Some r"
    using assms(2-5) skill_trend_positive[of prev s cur] by (simp add: map_of_analyze r_def)
  have mult: "\<exists>k::int. percentage_change r = of_int k / 100"
    using py_round_multiple[of "fraction * 100" 2] by (simp add: r_def)
  have close: "\<bar>percentage_change r - fraction * 100\<bar> \<le> 1 / 200"
    using py_round_close[of "fraction * 100" 2] by (simp add: r_def)
  have cls: "(trend r = ''rising'' \<longleftrightarrow> 15 / 100 \<le> fraction) \<and>
           (trend r = ''declining'' \<longleftrightarrow> fraction \<le> - (15 / 100)) \<and>
           (trend r = ''stable'' \<longleftrightarrow> - (15 / 100) < fraction \<and> fraction < 15 / 100)"
    using classify_trend_cases[of fraction] by (simp add: r_def)
  have band: "STABLE_THRESHOLD_HIGH < fraction \<and> fraction < RISING_THRESHOLD \<or>
            DECLINING_THRESHOLD < fraction \<and> fraction < STABLE_THRESHOLD_LOW
              \<longrightarrow> trend r = ''stable''"
    using cls by (auto simp: STABLE_THRESHOLD_HIGH_def STABLE_THRESHOLD_LOW_def
        RISING_THRESHOLD_def DECLINING_THRESHOLD_def)
  have fields: "skill r = s \<and> current_count r = current \<and> previous_count r = previous \<and>
           absolute_change r = current - previous"
    by (simp add: r_def)
  from run look fields mult close cls band show ?thesis by blast
qed

lemma example_comparison_recent:
  "comparison_counts (load_historical_data example_store) None 1 =
     Inr (Some [(''Python'', 100), (''Go'', 20), (''Rust'', 0)])"
  by (simp add: comparison_counts_def load_historical_data_def example_store_def
      example_history_def truthy_def sort_key_reverse_def py_index_def)

theorem analyze_trends_percentage_and_classification_witness:
  "\<exists>ts r. analyze_trends example_store [(''Python'', 115)] None 1 = Inr ts \<and>
      map_of ts ''Python'' = Some r \<and> previous_count r = 100 \<and> absolute_change r = 15 \<and>
      \<bar>percentage_change r - 15\<bar> \<le> 1 / 200 \<and> trend r = ''rising''"
proof -
  have "(0::int) < 100" by simp
  from analyze_trends_percentage_and_classification
         [OF example_comparison_recent _ _ this, of "''Python''" 115 "[(''Python'', 115)]" "15 / 100"]
  obtain ts r where
    "analyze_trends example_store [(''Python'', 115)] None 1 = Inr ts"
    "map_of ts ''Python'' = Some r" "previous_count r = 100" "absolute_change r = 15"
    "\<bar>percentage_change r - 15\<bar> \<le> 1 / 200" "trend r = ''rising''"
    by (auto simp: dict_get_def)
  then show ?thesis by blast
qed


lemma skill_trend_new:
  "dict_get prev s 0 = 0 \<Longrightarrow> 0 < dict_get cur s 0 \<Longrightarrow>
   skill_trend cur prev s =
     Some \<lparr>skill = s, current_count = dict_get cur s 0, previous_count = 0,
           absolute_change = dict_get cur s 0, percentage_change = 100, trend = ''rising''\<rparr>"
  by (simp add: skill_trend_def Let_def py_round_100)

lemma skill_trend_neither:
  "dict_get prev s 0 = 0 \<Longrightarrow> dict_get cur s 0 = 0 \<Longrightarrow> skill_trend cur prev s = None"
  by (simp add: skill_trend_def Let_def)

text \<open>
  Claim C3. When a comparison snapshot is selected and the skill's previous count is \<open>0\<close>:
  a positive current count gives the record with \<open>percentage_change = 100\<close>,
  \<open>trend = rising\<close> and \<open>absolute_change\<close> equal to the current count; a current count of
  \<open>0\<close> leaves the skill out of the result.
\<close>

theorem analyze_trends_new_or_absent_skill:
  assumes "comparison_counts (load_historical_data st) comparison_period periods_back = Inr (Some prev)"
      and "dict_get prev s 0 = 0"
  shows "\<exists>ts. analyze_trends st cur comparison_period periods_back = Inr ts \<and>
           (0 < dict_get cur s 0 \<longrightarrow>
              map_of ts s = Some \<lparr>skill = s, current_count = dict_get cur s 0, previous_count = 0,
                                  absolute_change = dict_get cur s 0, percentage_change = 100,
                                  trend = ''rising''\<rparr>) \<and>
           (dict_get cur s 0 = 0 \<longrightarrow> map_of ts s = None \<and> s \<notin> fst ` set ts)"
proof -
  let ?ts = "calculate_trends (all_skills cur prev) cur prev []"
  have run: "analyze_trends st cur comparison_period periods_back = Inr ?ts"
    using assms(1) by (rule analyze_trends_selected)
  have new: "0 < dict_get cur s 0 \<longrightarrow>
      map_of ?ts s = Some \<lparr>skill = s, current_count = dict_get cur s 0, previous_count = 0,
                          absolute_change = dict_get cur s 0, percentage_change = 100,
                          trend = ''rising''\<rparr>"
    using assms(2) by (simp add: map_of_analyze skill_trend_new)
  have gone: "dict_get cur s 0 = 0 \<longrightarrow> map_of ?ts s = None \<and> s \<notin> fst ` set ?ts"
    using assms(2) by (simp add: map_of_analyze skill_trend_neither flip: map_of_eq_None_iff)
  from run new gone show ?thesis by blast
qed

theorem analyze_trends_new_or_absent_skill_witness:
  "\<exists>ts. analyze_trends example_store [(''Java'', 5), (''Rust'', 0)] None 1 = Inr ts \<and>
      map_of ts ''Java'' = Some \<lparr>skill = ''Java'', current_count = 5, previous_count = 0,
                                 absolute_change = 5, percentage_change = 100, trend = ''rising''\<rparr> \<and>
      map_of ts ''Rust'' = None"
proof -
  let ?cur = "[(''Java'', 5), (''Rust'', 0)]"
  obtain ts where ts: "analyze_trends example_store ?cur None 1 = Inr ts"
    using analyze_trends_new_or_absent_skill[OF example_comparison_recent, of "''Java''" ?cur]
    by (auto simp: dict_get_def)
  have "map_of ts ''Java'' = Some \<lparr>skill = ''Java'', current_count = 5, previous_count = 0,
                                 absolute_change = 5, percentage_change = 100, trend = ''rising''\<rparr>"
    using analyze_trends_new_or_absent_skill[OF example_comparison_recent, of "''Java''" ?cur] ts
    by (auto simp: dict_get_def)
  moreover have "map_of ts ''Rust'' = None"
    using analyze_trends_new_or_absent_skill[OF example_comparison_recent, of "''Rust''" ?cur] ts
    by (auto simp: dict_get_def)
  ultimately show ?thesis using ts by blast
qed

lemma keys_classify_loop:
  "distinct (map fst cs) \<Longrightarrow> fst ` set acc \<inter> fst ` set cs = {} \<Longrightarrow>
   map fst (classify_all_as_new_loop cs acc) = map fst acc @ map fst cs"
proof (induction cs arbitrary: acc)
  case Nil
  then show ?case by simp
next
  case (Cons a cs)
  obtain k v where a: "a = (k, v)" by (cases a)
  have notin: "k \<notin> fst ` set acc" using Cons.prems(2) a by auto
  have "map fst (AList.update k r acc) = map fst acc @ [k]" for r
    using notin by (simp add: update_keys)
  moreover have "fst ` set (AList.update k r acc) \<inter> fst ` set cs = {}" for r
    using Cons.prems a by (auto simp: dom_update)
  ultimately show ?case using Cons a by simp
qed

text \<open>
  Claim C6, as amended. When the stored history is empty (no file, an unreadable file or
  an empty object), or when a non-empty comparison period is given that the history does
  not hold, \<open>analyze_trends\<close> returns normally, with exactly the skills of the current
  counts, each with \<open>previous_count = 0\<close>, \<open>absolute_change\<close> equal to its count,
  \<open>percentage_change = 100\<close> and \<open>trend = rising\<close>.
\<close>

theorem analyze_trends_missing_comparison:
  assumes "load_historical_data st = [] \<or>
           (comparison_period = Some p \<and> p \<noteq> [] \<and> map_of (load_historical_data st) p = None)"
      and "distinct (map fst cur)"
  shows "\<exists>ts. analyze_trends st cur comparison_period periods_back = Inr ts \<and>
           map fst ts = map fst cur \<and>
           (\<forall>s n. (s, n) \<in> set cur \<longrightarrow>
              map_of ts s = Some \<lparr>skill = s, current_count = n, previous_count = 0,
                                  absolute_change = n, percentage_change = 100,
                                  trend = ''rising''\<rparr>)"
proof -
  have sel: "comparison_counts (load_historical_data st) comparison_period periods_back = Inr None"
    using assms(1) by (auto simp: comparison_counts_def truthy_def)
  then have run: "analyze_trends st cur comparison_period periods_back = Inr (classify_all_as_new cur)"
    by (simp add: analyze_trends_def)
  have keys: "map fst (classify_all_as_new cur) = map fst cur"
    using assms(2) by (simp add: classify_all_as_new_def keys_classify_loop)
  have look: "\<forall>s n. (s, n) \<in> set cur \<longrightarrow>
      map_of (classify_all_as_new cur) s = Some \<lparr>skill = s, current_count = n, previous_count = 0,
                                  absolute_change = n, percentage_change = 100,
                                  trend = ''rising''\<rparr>"
    using assms(2) by (simp add: classify_all_as_new_def map_of_classify_loop)
  from run keys look show ?thesis by blast
qed

theorem analyze_trends_missing_comparison_witness:
  "\<exists>ts. analyze_trends example_store [(''Python'', 114), (''Go'', 16)] (Some ''2023-12-25'') 1 = Inr ts \<and>
     map fst ts = [''Python'', ''Go''] \<and>
     map_of ts ''Go'' = Some \<lparr>skill = ''Go'', current_count = 16, previous_count = 0,
                                absolute_change = 16, percentage_change = 100, trend = ''rising''\<rparr>"
proof -
  have "load_historical_data example_store = [] \<or>
         (Some ''2023-12-25'' = Some ''2023-12-25'' \<and> ''2023-12-25'' \<noteq> [] \<and>
          map_of (load_historical_data example_store) ''2023-12-25'' = None)"
    by (simp add: load_historical_data_def example_store_def example_history_def)
  moreover have "distinct (map fst [(''Python'', 114::int), (''Go'', 16)])" by simp
  ultimately obtain ts where
    "analyze_trends example_store [(''Python'', 114), (''Go'', 16)] (Some ''2023-12-25'') 1 = Inr ts"
    "map fst ts = map fst [(''Python'', 114::int), (''Go'', 16)]"
    "\<forall>s n. (s, n) \<in> set [(''Python'', 114), (''Go'', 16)] \<longrightarrow>
              map_of ts s = Some \<lparr>skill = s, current_count = n, previous_count = 0,
                                  absolute_change = n, percentage_change = 100,
                                  trend = ''rising''\<rparr>"
    using analyze_trends_missing_comparison by blast
  then show ?thesis by auto
qed

text \<open>
  The empty string is a comparison period that the example history does not hold, yet it
  is read as "no period given": the most recent snapshot is compared, and Python is
  reported stable against a previous count of \<open>100\<close>, not as new.
\<close>

theorem analyze_trends_empty_comparison_id:
  "map_of (load_historical_data example_store) [] = None \<and>
   analyze_trends example_store [(''Python'', 114)] (Some []) 1 =
     Inr [(''Python'', \<lparr>skill = ''Python'', current_count = 114, previous_count = 100,
                          absolute_change = 14, percentage_change = 14, trend = ''stable''\<rparr>),
          (''Go'', \<lparr>skill = ''Go'', current_count = 0, previous_count = 20,
                      absolute_change = - 20, percentage_change = - 100, trend = ''declining''\<rparr>)]"
  by (simp add: analyze_trends_def comparison_counts_def load_historical_data_def example_store_def
      example_history_def truthy_def sort_key_reverse_def py_index_def all_skills_def
      skill_trend_def dict_get_def classify_trend_def RISING_THRESHOLD_def DECLINING_THRESHOLD_def
      py_round_def Let_def)

section \<open>Properties of the snapshot store\<close>

lemma save_skill_frequencies_writable:
  assumes "writable st"
  shows "save_skill_frequencies st clk counts period_arg =
     Inr (if truthy period_arg then the period_arg else today clk,
          st\<lparr>data_file := Stored (AList.update (if truthy period_arg then the period_arg else today clk)
             \<lparr>period = (if truthy period_arg then the period_arg else today clk),
              timestamp = now_iso clk, skill_counts = counts,
              total_occurrences = sum_list (map snd counts),
              unique_skills = int (length counts)\<rparr> (load_historical_data st))\<rparr>)"
  using assms by (simp add: save_skill_frequencies_def save_historical_data_def Let_def)

lemma load_after_write: "load_historical_data (st\<lparr>data_file := Stored h\<rparr>) = h"
  by (simp add: load_historical_data_def)

text \<open>
  Claim C7, as amended. On a writable store, \<open>save_skill_frequencies\<close> returns the period
  it used, and looking that period up afterwards gives exactly the counts saved. For a
  non-empty period argument the period used is the argument; for no argument and for the
  empty string it is the current date. An entry already stored for the period is replaced
  (the list of periods does not grow), and every other period is untouched.
\<close>

theorem save_then_load_round_trip:
  assumes "writable st"
  shows "\<exists>pid st' e. save_skill_frequencies st clk counts period_arg = Inr (pid, st') \<and>
           (\<forall>p. period_arg = Some p \<and> p \<noteq> [] \<longrightarrow> pid = p) \<and>
           (period_arg = None \<or> period_arg = Some [] \<longrightarrow> pid = today clk) \<and>
           map_of (load_historical_data st') pid = Some e \<and> skill_counts e = counts \<and>
           map fst (load_historical_data st') =
             (if pid \<in> set (map fst (load_historical_data st)) then map fst (load_historical_data st)
              else map fst (load_historical_data st) @ [pid]) \<and>
           (\<forall>q. q \<noteq> pid \<longrightarrow> map_of (load_historical_data st') q = map_of (load_historical_data st) q)"
proof -
  define pid where "pid = (if truthy period_arg then the period_arg else today clk)"
  define e where "e = \<lparr>period = pid, timestamp = now_iso clk, skill_counts = counts,
              total_occurrences = sum_list (map snd counts),
              unique_skills = int (length counts)\<rparr>"
  define st' where "st' = st\<lparr>data_file := Stored (AList.update pid e (load_historical_data st))\<rparr>"
  have run: "save_skill_frequencies st clk counts period_arg = Inr (pid, st')"
    using save_skill_frequencies_writable[OF assms] by (simp add: pid_def e_def st'_def)
  have ld: "load_historical_data st' = AList.update pid e (load_historical_data st)"
    by (simp add: st'_def load_after_write)
  have given: "\<forall>p. period_arg = Some p \<and> p \<noteq> [] \<longrightarrow> pid = p"
    by (simp add: pid_def truthy_def)
  have omitted: "period_arg = None \<or> period_arg = Some [] \<longrightarrow> pid = today clk"
    by (auto simp: pid_def truthy_def)
  have found: "map_of (load_historical_data st') pid = Some e"
    by (simp add: ld update_conv')
  have same: "skill_counts e = counts" by (simp add: e_def)
  have keys: "map fst (load_historical_data st') =
             (if pid \<in> set (map fst (load_historical_data st)) then map fst (load_historical_data st)
              else map fst (load_historical_data st) @ [pid])"
    by (simp add: ld update_keys)
  have others: "\<forall>q. q \<noteq> pid \<longrightarrow> map_of (load_historical_data st') q = map_of (load_historical_data st) q"
    by (simp add: ld update_conv')
  from run given omitted found same keys others show ?thesis by blast
qed

text \<open>
  Claim C10. The snapshot written by \<open>save_skill_frequencies\<close> has \<open>total_occurrences\<close>
  equal to the sum of the values of its \<open>skill_counts\<close>, \<open>unique_skills\<close> equal to the
  number of distinct keys of that dict, and \<open>period\<close> equal to the period returned.
\<close>

theorem save_snapshot_consistent:
  assumes "writable st" and "distinct (map fst counts)"
  shows "\<exists>pid st' e. save_skill_frequencies st clk counts period_arg = Inr (pid, st') \<and>
           map_of (load_historical_data st') pid = Some e \<and>
           skill_counts e = counts \<and>
           total_occurrences e = sum_list (map snd (skill_counts e)) \<and>
           unique_skills e = int (card (fst ` set (skill_counts e))) \<and>
           period e = pid"
proof -
  define pid where "pid = (if truthy period_arg then the period_arg else today clk)"
  define e where "e = \<lparr>period = pid, timestamp = now_iso clk, skill_counts = counts,
              total_occurrences = sum_list (map snd counts),
              unique_skills = int (length counts)\<rparr>"
  define st' where "st' = st\<lparr>data_file := Stored (AList.update pid e (load_historical_data st))\<rparr>"
  have run: "save_skill_frequencies st clk counts period_arg = Inr (pid, st')"
    using save_skill_frequencies_writable[OF assms(1)] by (simp add: pid_def e_def st'_def)
  have found: "map_of (load_historical_data st') pid = Some e"
    by (simp add: st'_def load_after_write update_conv')
  have "card (fst ` set counts) = length counts"
    using distinct_card[OF assms(2)] by simp
  then have fields: "skill_counts e = counts \<and>
      total_occurrences e = sum_list (map snd (skill_counts e)) \<and>
      unique_skills e = int (card (fst ` set (skill_counts e))) \<and> period e = pid"
    by (simp add: e_def)
  from run found fields show ?thesis by blast
qed

lemma example_store3_keys:
  "map fst (load_historical_data example_store3) = [''2024-01-08'', ''2024-01-01'', ''2024-01-15'']"
  by (simp add: example_store3_def example_history3_def load_historical_data_def)

theorem save_then_load_round_trip_witness:
  "\<exists>st' e. save_skill_frequencies example_store3 example_clock [(''Python'', 130), (''Go'', 7)] (Some ''2024-01-15'')
        = Inr (''2024-01-15'', st') \<and>
     map_of (load_historical_data st') ''2024-01-15'' = Some e \<and>
     skill_counts e = [(''Python'', 130), (''Go'', 7)] \<and>
     map fst (load_historical_data st') = [''2024-01-08'', ''2024-01-01'', ''2024-01-15'']"
proof -
  have w: "writable example_store3" by (simp add: example_store3_def)
  obtain pid st' e where run:
      "save_skill_frequencies example_store3 example_clock [(''Python'', 130), (''Go'', 7)]
         (Some ''2024-01-15'') = Inr (pid, st')"
    and given: "\<forall>p. Some ''2024-01-15'' = Some p \<and> p \<noteq> [] \<longrightarrow> pid = p"
    and found: "map_of (load_historical_data st') pid = Some e"
    and same: "skill_counts e = [(''Python'', 130), (''Go'', 7)]"
    and keys: "map fst (load_historical_data st') =
             (if pid \<in> set (map fst (load_historical_data example_store3))
              then map fst (load_historical_data example_store3)
              else map fst (load_historical_data example_store3) @ [pid])"
    using save_then_load_round_trip[OF w, of example_clock "[(''Python'', 130), (''Go'', 7)]"
        "Some ''2024-01-15''"]
    by (elim exE conjE) 
  have pid: "pid = ''2024-01-15''" using given by simp
  have keys': "map fst (load_historical_data st') = [''2024-01-08'', ''2024-01-01'', ''2024-01-15'']"
    using keys unfolding pid example_store3_keys by simp
  show ?thesis
    using run found same keys' unfolding pid by (intro exI conjI)
qed

text \<open>
  Saving under the empty string stores the snapshot under the current date; a lookup of
  the empty string in the history written finds nothing.
\<close>

theorem save_empty_period_id:
  "save_skill_frequencies example_store example_clock [(''Python'', 130)] (Some []) =
     Inr (''2024-02-01'',
          \<lparr>data_file = Stored
             [(''2024-01-08'',
               \<lparr>period = ''2024-01-08'', timestamp = ''2024-01-08T09:00:00'',
                skill_counts = [(''Python'', 100), (''Go'', 20), (''Rust'', 0)],
                total_occurrences = 120, unique_skills = 3\<rparr>),
              (''2024-02-01'',
               \<lparr>period = ''2024-02-01'', timestamp = ''2024-02-01T12:00:00'',
                skill_counts = [(''Python'', 130)], total_occurrences = 130, unique_skills = 1\<rparr>)],
            writable = True\<rparr>) \<and>
   map_of [(''2024-01-08'',
               \<lparr>period = ''2024-01-08'', timestamp = ''2024-01-08T09:00:00'',
                skill_counts = [(''Python'', 100), (''Go'', 20), (''Rust'', 0)],
                total_occurrences = 120, unique_skills = 3\<rparr>),
              (''2024-02-01'',
               \<lparr>period = ''2024-02-01'', timestamp = ''2024-02-01T12:00:00'',
                skill_counts = [(''Python'', 130)], total_occurrences = 130, unique_skills = 1\<rparr>)] [] = None"
  by (simp add: save_skill_frequencies_def save_historical_data_def load_historical_data_def
      example_store_def example_history_def example_clock_def truthy_def Let_def)

theorem save_snapshot_consistent_witness:
  "\<exists>pid st' e. save_skill_frequencies example_store example_clock [(''Python'', 130), (''Go'', 7)] None
        = Inr (pid, st') \<and>
     map_of (load_historical_data st') pid = Some e \<and>
     total_occurrences e = 137 \<and> unique_skills e = 2 \<and> period e = pid"
proof -
  have w: "writable example_store" by (simp add: example_store_def)
  have d: "distinct (map fst [(''Python'', 130::int), (''Go'', 7)])" by simp
  have c: "card (fst ` set [(''Python'', 130::int), (''Go'', 7)]) = 2" by simp
  obtain pid st' e where run:
      "save_skill_frequencies example_store example_clock [(''Python'', 130), (''Go'', 7)] None = Inr (pid, st')"
    and found: "map_of (load_historical_data st') pid = Some e"
    and same: "skill_counts e = [(''Python'', 130), (''Go'', 7)]"
    and total: "total_occurrences e = sum_list (map snd (skill_counts e))"
    and uniq: "unique_skills e = int (card (fst ` set (skill_counts e)))"
    and per: "period e = pid"
    using save_snapshot_consistent[OF w d, of example_clock None]
    by (elim exE conjE)
  have t: "total_occurrences e = 137" using total unfolding same by simp
  have u: "unique_skills e = 2" using uniq unfolding same c by simp
  show ?thesis using run found t u per by (intro exI conjI)
qed

lemma fold_delete_filter:
  "fold AList.delete ks h = filter (\<lambda>e. fst e \<notin> set ks) h"
proof (induction ks arbitrary: h)
  case Nil
  then show ?case by simp
next
  case (Cons k ks)
  have "AList.delete k h = filter (\<lambda>e. fst e \<noteq> k) h"
    by (induction h) auto
  then show ?case using Cons by (simp add: conj_commute)
qed

lemma remove_older_filter:
  "fold AList.delete (filter (\<lambda>p. p < c) (map fst h)) h = filter (\<lambda>e. \<not> fst e < c) h"
  unfolding fold_delete_filter by (rule filter_cong) auto

text \<open>
  Claim C8, as amended. On a writable store, \<open>clear_historical_data\<close> with a non-empty
  cutoff keeps exactly the stored periods that are not lexicographically below the cutoff
  (equal and greater ones remain) and returns how many were below it; with no cutoff, or
  with the empty string as cutoff, it removes every stored period and returns how many
  there were. In each case the number returned is the number of periods removed.
\<close>

theorem clear_historical_data_removes_older:
  assumes "writable st"
  shows "\<exists>n st'. clear_historical_data st before_period = Inr (n, st') \<and>
           (\<forall>c. before_period = Some c \<and> c \<noteq> [] \<longrightarrow>
              load_historical_data st' = filter (\<lambda>e. \<not> fst e < c) (load_historical_data st) \<and>
              n = int (length (filter (\<lambda>e. fst e < c) (load_historical_data st)))) \<and>
           (before_period = None \<or> before_period = Some [] \<longrightarrow>
              load_historical_data st' = [] \<and> n = int (length (load_historical_data st))) \<and>
           n = int (length (load_historical_data st)) - int (length (load_historical_data st'))"
proof (cases "truthy before_period")
  case True
  then obtain c where c: "before_period = Some c" "c \<noteq> []"
    by (auto simp: truthy_def split: option.splits)
  let ?h = "load_historical_data st"
  let ?h' = "filter (\<lambda>e. \<not> fst e < c) ?h"
  let ?n = "int (length (filter (\<lambda>e. fst e < c) ?h))"
  have run: "clear_historical_data st before_period = Inr (?n, st\<lparr>data_file := Stored ?h'\<rparr>)"
    using assms True c
    by (simp add: clear_historical_data_def save_historical_data_def Let_def
        remove_older_filter comp_def)
  have ld: "load_historical_data (st\<lparr>data_file := Stored ?h'\<rparr>) = ?h'"
    by (simp add: load_historical_data_def)
  have "length ?h = length (filter (\<lambda>e. fst e < c) ?h) + length ?h'"
    using sum_length_filter_compl[of "\<lambda>e. fst e < c" ?h] by simp
  then have diff: "?n = int (length ?h) - int (length ?h')" by simp
  show ?thesis using run ld diff c by auto
next
  case False
  then have none: "before_period = None \<or> before_period = Some []"
    by (auto simp: truthy_def split: option.splits)
  let ?h = "load_historical_data st"
  have run: "clear_historical_data st before_period = Inr (int (length ?h), st\<lparr>data_file := Stored []\<rparr>)"
    using assms False by (simp add: clear_historical_data_def save_historical_data_def Let_def)
  have ld: "load_historical_data (st\<lparr>data_file := Stored []\<rparr>) = []"
    by (simp add: load_historical_data_def)
  show ?thesis using run ld none by auto
qed

theorem clear_historical_data_removes_older_witness:
  "\<exists>st'. clear_historical_data example_store3 (Some ''2024-01-08'') = Inr (1, st') \<and>
      map fst (load_historical_data st') = [''2024-01-08'', ''2024-01-15'']"
proof -
  have w: "writable example_store3" by (simp add: example_store3_def)
  have h: "load_historical_data example_store3 = example_history3"
    by (simp add: example_store3_def load_historical_data_def)
  obtain n st' where run: "clear_historical_data example_store3 (Some ''2024-01-08'') = Inr (n, st')"
    and cut: "\<forall>c. Some ''2024-01-08'' = Some c \<and> c \<noteq> [] \<longrightarrow>
              load_historical_data st' = filter (\<lambda>e. \<not> fst e < c) (load_historical_data example_store3) \<and>
              n = int (length (filter (\<lambda>e. fst e < c) (load_historical_data example_store3)))"
    using clear_historical_data_removes_older[OF w, of "Some ''2024-01-08''"]
    by (elim exE conjE)
  from cut have kept: "load_historical_data st' = filter (\<lambda>e. \<not> fst e < ''2024-01-08'') example_history3"
    and n: "n = int (length (filter (\<lambda>e. fst e < ''2024-01-08'') example_history3))"
    unfolding h by simp_all
  have n1: "n = 1" unfolding n by (simp add: example_history3_def less_char_def)
  have keys: "map fst (load_historical_data st') = [''2024-01-08'', ''2024-01-15'']"
    unfolding kept by (simp add: example_history3_def less_char_def)
  show ?thesis using run keys unfolding n1 by (intro exI conjI)
qed

text \<open>
  No period is below the empty string, yet the empty string as cutoff clears the one
  period of the example store: it is read as "no cutoff given".
\<close>

theorem clear_historical_data_empty_cutoff:
  "filter (\<lambda>e. fst e < []) (load_historical_data example_store) = [] \<and>
   clear_historical_data example_store (Some []) = Inr (1, \<lparr>data_file = Stored [], writable = True\<rparr>)"
  by (simp add: clear_historical_data_def save_historical_data_def load_historical_data_def
      example_store_def example_history_def truthy_def)

section \<open>Properties of the summary\<close>

lemma mset_sort_key_reverse: "mset (sort_key_reverse f xs) = mset xs"
  by (simp add: sort_key_reverse_def)

lemma sorted_sort_key_reverse:
  "sorted_wrt (\<lambda>a b. f b \<le> f a) (sort_key_reverse f xs)"
proof -
  have "sorted (map f (sort_key f (rev xs)))" by (rule sorted_sort_key)
  then have "sorted_wrt (\<lambda>a b. f a \<le> f b) (sort_key f (rev xs))"
    by (simp add: sorted_map)
  then show ?thesis
    by (simp add: sort_key_reverse_def sorted_wrt_rev)
qed

lemma summary_loop_known:
  assumes "\<forall>r \<in> set xs. trend r = ''rising'' \<or> trend r = ''stable'' \<or> trend r = ''declining''"
  shows "summary_loop xs s =
     Inr \<lparr>rising = rising s @ filter (\<lambda>r. trend r = ''rising'') xs,
          stable = stable s @ filter (\<lambda>r. trend r = ''stable'') xs,
          declining = declining s @ filter (\<lambda>r. trend r = ''declining'') xs\<rparr>"
  using assms
proof (induction xs arbitrary: s)
  case Nil
  then show ?case by simp
next
  case (Cons r xs)
  then show ?case
    by (auto simp: summary_append_def)
qed

lemma three_way_partition:
  assumes "\<forall>r \<in> set xs. trend r = ''rising'' \<or> trend r = ''stable'' \<or> trend r = ''declining''"
  shows "mset (filter (\<lambda>r. trend r = ''rising'') xs) + mset (filter (\<lambda>r. trend r = ''stable'') xs) +
         mset (filter (\<lambda>r. trend r = ''declining'') xs) = mset xs"
  using assms by (induction xs) auto

text \<open>
  Claim C9. When every input record carries one of the three classifications,
  \<open>get_trend_summary\<close> returns a summary whose list \<open>rising\<close> holds exactly the records
  classified rising, and likewise \<open>stable\<close> and \<open>declining\<close>; the three lists together
  hold every input record exactly once, so their lengths add up to the number of input
  records; and each list is in descending order of \<open>\<bar>absolute_change\<bar>\<close>.
\<close>

theorem get_trend_summary_partition:
  assumes "\<forall>r \<in> set (map snd ts).
             trend r = ''rising'' \<or> trend r = ''stable'' \<or> trend r = ''declining''"
  shows "\<exists>s. get_trend_summary ts = Inr s \<and>
           mset (rising s) = filter_mset (\<lambda>r. trend r = ''rising'') (mset (map snd ts)) \<and>
           mset (stable s) = filter_mset (\<lambda>r. trend r = ''stable'') (mset (map snd ts)) \<and>
           mset (declining s) = filter_mset (\<lambda>r. trend r = ''declining'') (mset (map snd ts)) \<and>
           mset (rising s) + mset (stable s) + mset (declining s) = mset (map snd ts) \<and>
           length (rising s) + length (stable s) + length (declining s) = length ts \<and>
           sorted_wrt (\<lambda>a b. \<bar>absolute_change b\<bar> \<le> \<bar>absolute_change a\<bar>) (rising s) \<and>
           sorted_wrt (\<lambda>a b. \<bar>absolute_change b\<bar> \<le> \<bar>absolute_change a\<bar>) (stable s) \<and>
           sorted_wrt (\<lambda>a b. \<bar>absolute_change b\<bar> \<le> \<bar>absolute_change a\<bar>) (declining s)"
proof -
  let ?xs = "map snd ts"
  let ?key = "\<lambda>x. \<bar>absolute_change x\<bar>"
  let ?R = "filter (\<lambda>r. trend r = ''rising'') ?xs"
  let ?S = "filter (\<lambda>r. trend r = ''stable'') ?xs"
  let ?D = "filter (\<lambda>r. trend r = ''declining'') ?xs"
  define s where "s = \<lparr>rising = sort_key_reverse ?key ?R, stable = sort_key_reverse ?key ?S,
                        declining = sort_key_reverse ?key ?D\<rparr>"
  have loop: "summary_loop ?xs \<lparr>rising = [], stable = [], declining = []\<rparr> =
      Inr \<lparr>rising = ?R, stable = ?S, declining = ?D\<rparr>"
    using summary_loop_known[OF assms, of "\<lparr>rising = [], stable = [], declining = []\<rparr>"] by simp
  have run: "get_trend_summary ts = Inr s"
    by (simp add: get_trend_summary_def loop s_def)
  have r: "mset (rising s) = filter_mset (\<lambda>r. trend r = ''rising'') (mset ?xs)"
    by (simp add: s_def mset_sort_key_reverse)
  have st: "mset (stable s) = filter_mset (\<lambda>r. trend r = ''stable'') (mset ?xs)"
    by (simp add: s_def mset_sort_key_reverse)
  have d: "mset (declining s) = filter_mset (\<lambda>r. trend r = ''declining'') (mset ?xs)"
    by (simp add: s_def mset_sort_key_reverse)
  have all: "mset (rising s) + mset (stable s) + mset (declining s) = mset ?xs"
    using three_way_partition[OF assms] by (simp add: s_def mset_sort_key_reverse)
  have "size (mset (rising s) + mset (stable s) + mset (declining s)) = size (mset ?xs)"
    by (simp only: all)
  then have len: "length (rising s) + length (stable s) + length (declining s) = length ts"
    by simp
  have sr: "sorted_wrt (\<lambda>a b. ?key b \<le> ?key a) (rising s)"
    unfolding s_def by (simp add: sorted_sort_key_reverse)
  have ss: "sorted_wrt (\<lambda>a b. ?key b \<le> ?key a) (stable s)"
    unfolding s_def by (simp add: sorted_sort_key_reverse)
  have sd: "sorted_wrt (\<lambda>a b. ?key b \<le> ?key a) (declining s)"
    unfolding s_def by (simp add: sorted_sort_key_reverse)
  from run r st d all len sr ss sd show ?thesis by (intro exI conjI)
qed

theorem get_trend_summary_partition_witness:
  "\<exists>s. get_trend_summary example_trends = Inr s \<and>
       length (rising s) + length (stable s) + length (declining s) = 4 \<and>
       mset (rising s) = {#snd (example_trends ! 0), snd (example_trends ! 2)#} \<and>
       sorted_wrt (\<lambda>a b. \<bar>absolute_change b\<bar> \<le> \<bar>absolute_change a\<bar>) (rising s)"
proof -
  have known: "\<forall>r \<in> set (map snd example_trends).
             trend r = ''rising'' \<or> trend r = ''stable'' \<or> trend r = ''declining''"
    by (simp add: example_trends_def)
  obtain s where run: "get_trend_summary example_trends = Inr s"
    and r: "mset (rising s) = filter_mset (\<lambda>r. trend r = ''rising'') (mset (map snd example_trends))"
    and len: "length (rising s) + length (stable s) + length (declining s) = length example_trends"
    and sr: "sorted_wrt (\<lambda>a b. \<bar>absolute_change b\<bar> \<le> \<bar>absolute_change a\<bar>) (rising s)"
    using get_trend_summary_partition[OF known] by (elim exE conjE)
  have len4: "length (rising s) + length (stable s) + length (declining s) = 4"
    using len by (simp add: example_trends_def)
  have r2: "mset (rising s) = {#snd (example_trends ! 0), snd (example_trends ! 2)#}"
    unfolding r by (simp add: example_trends_def)
  show ?thesis using run len4 r2 sr by (intro exI conjI)
qed

section \<open>Properties of the skill extraction\<close>

lemma node_service_init: "service_init node_catalog = Inr node_service"
  by code_simp

text \<open>
  Claim C4, as amended. Construction fails with \<open>FileNotFoundError\<close> when the catalog file
  is missing and with \<open>ValueError\<close> when it is not valid JSON, and in no other case: a
  catalog without the key \<open>skills\<close>, or with an empty \<open>skills\<close> object, constructs a
  service with an empty vocabulary.
\<close>

theorem service_init_failures:
  "service_init CatalogMissing = Inl FileNotFoundError \<and>
   service_init CatalogNotJson = Inl ValueError \<and>
   (\<forall>json_data. \<exists>svc. service_init (Catalog json_data) = Inr svc) \<and>
   service_init (Catalog None) = Inr \<lparr>skills_data = [], skill_map = []\<rparr> \<and>
   service_init (Catalog (Some [])) = Inr \<lparr>skills_data = [], skill_map = []\<rparr>"
  by (simp add: service_init_def load_skills_data_def build_skill_map_def)

text \<open>An empty \<open>skills\<close> object does not make the construction fail.\<close>

theorem service_init_empty_catalog:
  "service_init (Catalog (Some [])) = Inr \<lparr>skills_data = [], skill_map = []\<rparr>"
  by (simp add: service_init_def load_skills_data_def build_skill_map_def)

text \<open>
  Claim C2 fails on the code: with the aliases \<open>node\<close> and \<open>node.js\<close> of two different
  skills, the text \<open>Node.js developer\<close> yields both skills. In \<open>node.js\<close> the full stop is
  not a word character, so \<open>\bnode\b\<close> matches at the start of the text.
\<close>

theorem extract_skills_node_js_returns_both:
  "service_init node_catalog = Inr node_service \<and>
   map_of (skill_map node_service) ''node'' = Some ''Node'' \<and>
   map_of (skill_map node_service) ''node.js'' = Some ''Node.js'' \<and>
   extract_skills node_service (PyStr ''Node.js developer'') =
     Inr [\<lparr>skill_name = ''Node'', skill_category = ''Platform''\<rparr>,
          \<lparr>skill_name = ''Node.js'', skill_category = ''Runtime''\<rparr>]"
  by code_simp

lemma values_update: "snd ` set (AList.update k v al) \<subseteq> insert v (snd ` set al)"
  by (induction al) auto

lemma values_add_variations:
  "snd ` set (add_variations vs n m) \<subseteq> insert n (snd ` set m)"
proof (induction vs arbitrary: m)
  case Nil
  then show ?case by auto
next
  case (Cons v vs)
  have "snd ` set (add_variations vs n (AList.update (lower v) n m))
          \<subseteq> insert n (snd ` set (AList.update (lower v) n m))"
    by (rule Cons.IH)
  also have "\<dots> \<subseteq> insert n (snd ` set m)"
    using values_update[of "lower v" n m] by auto
  finally show ?case by simp
qed

lemma values_build_skill_map_loop:
  "snd ` set (build_skill_map_loop sd m) \<subseteq> snd ` set m \<union> fst ` set sd"
proof (induction sd arbitrary: m)
  case Nil
  then show ?case by simp
next
  case (Cons a sd)
  obtain n md where a: "a = (n, md)" by (cases a)
  define vs where "vs = (case variations md of None \<Rightarrow> [] | Some vs \<Rightarrow> vs)"
  define m2 where "m2 = add_variations vs n (AList.update (lower n) n m)"
  have step: "build_skill_map_loop (a # sd) m = build_skill_map_loop sd m2"
    by (simp add: a m2_def vs_def)
  have "snd ` set m2 \<subseteq> insert n (snd ` set m)"
    using values_add_variations[of vs n "AList.update (lower n) n m"]
      values_update[of "lower n" n m] unfolding m2_def by auto
  moreover have "snd ` set (build_skill_map_loop sd m2) \<subseteq> snd ` set m2 \<union> fst ` set sd"
    by (rule Cons.IH)
  ultimately have A: "snd ` set (build_skill_map_loop sd m2) \<subseteq> insert n (snd ` set m) \<union> fst ` set sd"
    by blast
  have B: "fst ` set (a # sd) = insert n (fst ` set sd)" by (simp add: a)
  show ?case unfolding step B using A by blast
qed

lemma values_build_skill_map:
  "(v, n) \<in> set (build_skill_map sd) \<Longrightarrow> map_of sd n \<noteq> None"
proof -
  assume "(v, n) \<in> set (build_skill_map sd)"
  then have "n \<in> snd ` set (build_skill_map_loop sd [])"
    by (force simp: build_skill_map_def)
  then have "n \<in> fst ` set sd"
    using values_build_skill_map_loop[of sd "[]"] by auto
  then show ?thesis by (simp add: map_of_eq_None_iff)
qed

lemma set_sort_key_reverse: "set (sort_key_reverse f xs) = set xs"
  by (simp add: sort_key_reverse_def)

lemma extract_loop_total:
  assumes "\<forall>(v, n) \<in> set items. map_of sd n \<noteq> None"
      and "distinct (map skill_name acc)"
      and "set (map skill_name acc) \<subseteq> discovered"
  shows "\<exists>xs. extract_loop items sd text discovered acc = Inr xs \<and> distinct (map skill_name xs)"
  using assms
proof (induction items arbitrary: discovered acc)
  case Nil
  then show ?case by simp
next
  case (Cons item items)
  obtain v n where item: "item = (v, n)" by (cases item)
  from Cons.prems(1) have rest: "\<forall>(v, n) \<in> set items. map_of sd n \<noteq> None" by simp
  show ?case
  proof (cases "n \<in> discovered \<or> \<not> re_search_word v text")
    case True
    then have "extract_loop (item # items) sd text discovered acc =
        extract_loop items sd text discovered acc"
      by (auto simp: item)
    then show ?thesis using Cons.IH[OF rest Cons.prems(2,3)] by simp
  next
    case False
    from Cons.prems(1) item obtain md where md: "map_of sd n = Some md" by auto
    define e where "e = \<lparr>skill_name = n,
        skill_category = (case category md of None \<Rightarrow> ''Unknown'' | Some c \<Rightarrow> c)\<rparr>"
    have step: "extract_loop (item # items) sd text discovered acc =
        extract_loop items sd text (insert n discovered) (acc @ [e])"
      using False by (simp add: item md e_def)
    have d: "distinct (map skill_name (acc @ [e]))"
      using Cons.prems(2,3) False by (auto simp: e_def)
    have s: "set (map skill_name (acc @ [e])) \<subseteq> insert n discovered"
      using Cons.prems(3) by (auto simp: e_def)
    show ?thesis using Cons.IH[OF rest d s] step by simp
  qed
qed

lemma distinct_map_sort_key:
  "distinct (map f (sort_key g xs)) = distinct (map f xs)"
proof -
  have "mset (map f (sort_key g xs)) = mset (map f xs)" by simp
  then show ?thesis by (rule mset_eq_imp_distinct_iff)
qed

text \<open>
  Claim C5. On a service built by \<open>service_init\<close>, \<open>extract_skills\<close> returns for every
  input a list (it does not raise) that is sorted by skill name and holds no skill name
  twice, and the list is empty for every input that is not a string and for the empty
  string.
\<close>

theorem extract_skills_sorted_distinct:
  assumes "service_init f = Inr svc"
  shows "\<exists>xs. extract_skills svc input_text = Inr xs \<and>
           sorted (map skill_name xs) \<and> distinct (map skill_name xs) \<and>
           ((\<forall>s. input_text \<noteq> PyStr s) \<or> input_text = PyStr [] \<longrightarrow> xs = [])"
proof (cases "\<exists>s. input_text = PyStr s \<and> s \<noteq> []")
  case False
  then have "extract_skills svc input_text = Inr []"
    by (cases input_text) (auto simp: extract_skills_def)
  then show ?thesis by simp
next
  case True
  then obtain s where s: "input_text = PyStr s" "s \<noteq> []" by blast
  from assms obtain sd where sd: "load_skills_data f = Inr sd"
    and svc: "svc = \<lparr>skills_data = sd, skill_map = build_skill_map sd\<rparr>"
    by (auto simp: service_init_def split: sum.splits)
  let ?items = "sort_key_reverse (\<lambda>item. length (fst item)) (skill_map svc)"
  let ?text = "collapse_whitespace (strip (lower s))"
  have "\<forall>(v, n) \<in> set ?items. map_of (skills_data svc) n \<noteq> None"
    using values_build_skill_map[of _ _ sd] by (auto simp: svc set_sort_key_reverse)
  then obtain xs where xs: "extract_loop ?items (skills_data svc) ?text {} [] = Inr xs"
    and d: "distinct (map skill_name xs)"
    using extract_loop_total[of ?items "skills_data svc" "[]" "{}" ?text] by auto
  have run: "extract_skills svc input_text = Inr (sort_key skill_name xs)"
    using s xs by (simp add: extract_skills_def Let_def)
  have "sorted (map skill_name (sort_key skill_name xs))" by (rule sorted_sort_key)
  moreover have "distinct (map skill_name (sort_key skill_name xs))"
    using d by (simp add: distinct_map_sort_key)
  ultimately show ?thesis using run s by auto
qed

theorem extract_skills_sorted_distinct_witness:
  "(\<exists>xs. extract_skills node_service (PyStr ''Node.js developer'') = Inr xs \<and>
         sorted (map skill_name xs) \<and> distinct (map skill_name xs)) \<and>
   extract_skills node_service (PyInt 7) = Inr [] \<and>
   extract_skills node_service (PyStr []) = Inr []"
proof -
  have a: "\<exists>xs. extract_skills node_service (PyStr ''Node.js developer'') = Inr xs \<and>
         sorted (map skill_name xs) \<and> distinct (map skill_name xs)"
    using extract_skills_sorted_distinct[OF node_service_init, of "PyStr ''Node.js developer''"]
    by (elim exE conjE) (intro exI conjI)
  have b: "extract_skills node_service (PyInt 7) = Inr []"
    using extract_skills_sorted_distinct[OF node_service_init, of "PyInt 7"] by auto
  have c: "extract_skills node_service (PyStr []) = Inr []"
    using extract_skills_sorted_distinct[OF node_service_init, of "PyStr []"] by auto
  from a b c show ?thesis by (intro conjI)
qed

theorem extract_skills_node_js_returns_both_witness:
  "map skill_name (projr (extract_skills node_service (PyStr ''Node.js developer''))) =
     [''Node'', ''Node.js'']"
  using extract_skills_node_js_returns_both by simp

theorem service_init_failures_witness:
  "\<exists>svc. service_init node_catalog = Inr svc"
proof -
  have "\<forall>json_data. \<exists>svc. service_init (Catalog json_data) = Inr svc"
    using service_init_failures by (elim conjE)
  then show ?thesis unfolding node_catalog_def by (rule allE)
qed

end
